theory Spec2Isabelle
  imports Complex_Main "HOL-Library.DAList"
begin

section \<open>Python values, exceptions and the user interface\<close>

text \<open>
  The program is one Streamlit script, \<^verbatim>\<open>streamlit_app.py\<close>. Everything it does beyond
  returning values is made explicit here: an exception is the \<open>Inl\<close> of a sum, the
  messages it shows with \<^verbatim>\<open>st.error\<close> and the library calls it makes are events of a log,
  the temporary files live in an explicit file system.

  Every exception the script can meet is an instance of Python's \<^verbatim>\<open>Exception\<close>. The
  two subclasses it names in an \<^verbatim>\<open>except\<close> clause are kept apart; \<open>Exception\<close> stands
  for any other one, with its text. A \<^verbatim>\<open>CalledProcessError\<close> carries the captured
  standard error of the process, \<open>None\<close> when those bytes are not valid UTF-8 (so that
  \<^verbatim>\<open>e.stderr.decode()\<close> raises).
\<close>

datatype exn =
    FileNotFoundError string
  | CalledProcessError "string option"
  | Exception string

text \<open>The text of \<^verbatim>\<open>f"{e}"\<close>.\<close>

fun str_exn :: "exn \<Rightarrow> string" where
  "str_exn (FileNotFoundError m) = m"
| "str_exn (CalledProcessError _) = ''Command returned non-zero exit status''"
| "str_exn (Exception m) = m"

text \<open>Python's \<^verbatim>\<open>xs[i]\<close> for a constant index \<open>i \<ge> 0\<close>: out of range it raises IndexError.\<close>

definition getitem :: "'a list \<Rightarrow> nat \<Rightarrow> exn + 'a" where
  "getitem xs i =
     (if i < length xs then Inr (xs ! i) else Inl (Exception ''IndexError: index out of bounds''))"

definition TARGET_SR :: nat where
  "TARGET_SR = 16000"

section \<open>The label interpreter\<close>

text \<open>
  Lines 72 and 73 of \<^verbatim>\<open>run_prediction_pipeline\<close>:
  \<^verbatim>\<open>
  kata = "Buka" if pred_array[0] == 1 else "Tutup"
  pembicara = "Fikri" if pred_array[2] == 1 else "Fauzan"
  \<close>
  \<open>pred_array\<close> is the first row of what the classifier predicts, a row of integer class
  labels. Both reads can raise.
\<close>

definition label_interpreter :: "int list \<Rightarrow> exn + string \<times> string" where
  "label_interpreter pred_array =
     (case getitem pred_array 0 of
        Inl e \<Rightarrow> Inl e
      | Inr w \<Rightarrow>
          (case getitem pred_array 2 of
             Inl e \<Rightarrow> Inl e
           | Inr s \<Rightarrow>
               Inr (if w = 1 then ''Buka'' else ''Tutup'',
                    if s = 1 then ''Fikri'' else ''Fauzan'')))"

section \<open>Data of the pipeline\<close>

text \<open>
  A cell of a feature table is a float: finite, one of the two infinities, or NaN, the
  missing-value marker of pandas. A column label is a Python string or integer. A
  one-row table (a \<^verbatim>\<open>DataFrame\<close>) is the list of its columns, each with its label and
  its cell. The table that \<^verbatim>\<open>tsfel.time_series_features_extractor\<close> returns carries each
  label once: it is an association list with distinct keys. A signal is the numpy array
  that \<^verbatim>\<open>librosa.load\<close> returns: one-dimensional (mono), or one row per channel.
\<close>

datatype num = Finite real | PosInf | NegInf | NaN

datatype label = Str string | Num int

type_synonym frame = "(label \<times> num) list"

type_synonym matrix = "num list list"

datatype signal = Mono "real list" | Multi "real list list"

text \<open>
  What \<^verbatim>\<open>joblib.load("selected_features.joblib")\<close> can give: a list, or an object that is
  not a list (a tuple, \<^verbatim>\<open>None\<close>).
\<close>

datatype pyobj = PyList "label list" | PyTuple "label list" | PyNone

fun isinstance_list :: "pyobj \<Rightarrow> bool" where
  "isinstance_list (PyList _) = True"
| "isinstance_list _ = False"

text \<open>
  The imputer and the classifier are opaque fitted objects; each is its method
  (\<^verbatim>\<open>transform\<close>, \<^verbatim>\<open>predict\<close>), which may raise.
\<close>

type_synonym imputer_obj = "frame \<Rightarrow> exn + matrix"

type_synonym model_obj = "matrix \<Rightarrow> exn + int list list"

text \<open>
  The log of a request: the library calls of the pipeline in the order they are made,
  each with the argument that matters, and the messages shown with \<^verbatim>\<open>st.error\<close>.
\<close>

datatype event =
    TsfelExtract signal nat
  | Reindex
  | Replace
  | ImputerTransform frame
  | ModelPredict matrix
  | Interpret "int list"
  | StError string

section \<open>The asset loader\<close>

text \<open>
  \<^verbatim>\<open>load_assets\<close> (lines 27 to 46) reads three files with \<^verbatim>\<open>joblib.load\<close> and asks tsfel
  for its feature configuration. The outcome of each of the four reads is given: the
  object, or the exception raised. \<^verbatim>\<open>st.stop()\<close> ends the run of the script: nothing
  after the call to \<^verbatim>\<open>load_assets\<close> is executed.
\<close>

record ('m, 'i, 'c) artifacts =
  model_suara_joblib :: "exn + 'm"
  imputer_joblib :: "exn + 'i"
  selected_features_joblib :: "exn + pyobj"
  features_by_domain :: "exn + 'c"

datatype 'a script = Stopped | Returned 'a

text \<open>The two \<^verbatim>\<open>except\<close> clauses of \<^verbatim>\<open>load_assets\<close>, in their order.\<close>

fun load_failed :: "exn \<Rightarrow> event list \<times> 'a script" where
  "load_failed (FileNotFoundError m) =
     ([StError ''ERROR: File model tidak ditemukan. Pastikan file .joblib ada di folder yang sama.''],
      Stopped)"
| "load_failed e = ([StError (''Error saat memuat model: '' @ str_exn e)], Stopped)"

definition load_assets ::
  "('m, 'i, 'c) artifacts \<Rightarrow> event list \<times> ('m option \<times> 'i option \<times> pyobj \<times> 'c option) script" where
  "load_assets disk =
     (case model_suara_joblib disk of
        Inl e \<Rightarrow> load_failed e
      | Inr m \<Rightarrow>
     (case imputer_joblib disk of
        Inl e \<Rightarrow> load_failed e
      | Inr i \<Rightarrow>
     (case selected_features_joblib disk of
        Inl e \<Rightarrow> load_failed e
      | Inr names \<Rightarrow>
     (case features_by_domain disk of
        Inl e \<Rightarrow> load_failed e
      | Inr cfg \<Rightarrow>
          if \<not> isinstance_list names
          then ([StError ''Error: 'selected_features.joblib' bukan sebuah list. Pastikan file sudah benar.''],
                Returned (None, None, PyNone, None))
          else ([], Returned (Some m, Some i, names, Some cfg))))))"

text \<open>
  Line 49 binds the four globals to what \<^verbatim>\<open>load_assets\<close> returned; the rest of the script
  (lines 126 to 191) draws the two tabs and serves prediction requests with them.
  \<open>app_start\<close> gives the globals the script serves with, \<open>None\<close> when it was stopped
  before.
\<close>

record 'c globals =
  model :: "model_obj option"
  imputer :: "imputer_obj option"
  selected_features_names :: pyobj
  tsfel_cfg :: "'c option"

definition app_start ::
  "(model_obj, imputer_obj, 'c) artifacts \<Rightarrow> event list \<times> 'c globals option" where
  "app_start disk =
     (case load_assets disk of
        (shown, Stopped) \<Rightarrow> (shown, None)
      | (shown, Returned (m, i, names, cfg)) \<Rightarrow>
          (shown, Some \<lparr>model = m, imputer = i, selected_features_names = names, tsfel_cfg = cfg\<rparr>))"

section \<open>The feature pipeline\<close>

text \<open>
  \<^verbatim>\<open>features.reindex(columns=selected_features_names)\<close>: the new table has the given
  labels as its columns, in their order; a label the old table lacks gets NaN. With
  \<^verbatim>\<open>columns=None\<close> the table is returned as it is.
\<close>

definition conform :: "(label, num) alist \<Rightarrow> label list \<Rightarrow> frame" where
  "conform features names =
     map (\<lambda>n. (n, case DAList.lookup features n of None \<Rightarrow> NaN | Some x \<Rightarrow> x)) names"

fun reindex :: "(label, num) alist \<Rightarrow> pyobj \<Rightarrow> frame" where
  "reindex features PyNone = DAList.impl_of features"
| "reindex features (PyList names) = conform features names"
| "reindex features (PyTuple names) = conform features names"

text \<open>
  \<^verbatim>\<open>df.replace([np.inf, -np.inf], np.nan)\<close>: every cell equal to one of the listed values
  becomes the new value; labels and order stay.
\<close>

definition replace :: "num list \<Rightarrow> num \<Rightarrow> frame \<Rightarrow> frame" where
  "replace to_replace new df =
     map (\<lambda>(c, x). (c, if x \<in> set to_replace then new else x)) df"

text \<open>A method call on a global that may be \<^verbatim>\<open>None\<close> (then it raises AttributeError).\<close>

definition call_method :: "('a \<Rightarrow> exn + 'b) option \<Rightarrow> 'a \<Rightarrow> exn + 'b" where
  "call_method obj x =
     (case obj of
        None \<Rightarrow> Inl (Exception ''AttributeError: NoneType object has no such attribute'')
      | Some f \<Rightarrow> f x)"

text \<open>
  Sequencing inside a \<^verbatim>\<open>try\<close> block: a run is the log so far and the value or the
  exception raised; after an exception nothing more is evaluated.
\<close>

type_synonym 'a run = "event list \<times> (exn + 'a)"

definition and_then :: "'a run \<Rightarrow> ('a \<Rightarrow> 'b run) \<Rightarrow> 'b run" where
  "and_then r f =
     (case r of
        (evs, Inl e) \<Rightarrow> (evs, Inl e)
      | (evs, Inr x) \<Rightarrow> (case f x of (evs', y) \<Rightarrow> (evs @ evs', y)))"

text \<open>
  The body of the \<^verbatim>\<open>try\<close> of \<^verbatim>\<open>run_prediction_pipeline\<close> (lines 57 to 75). The extractor of
  tsfel is given: a function of the configuration, the signal and the rate that returns a
  table or raises.
\<close>

type_synonym 'c extractor = "'c option \<Rightarrow> signal \<Rightarrow> nat \<Rightarrow> exn + (label, num) alist"

definition pipeline_body ::
  "'c extractor \<Rightarrow> 'c globals \<Rightarrow> signal \<Rightarrow> nat \<Rightarrow> (string \<times> string) run" where
  "pipeline_body tsfel g sig sr =
     and_then ([TsfelExtract sig sr], tsfel (tsfel_cfg g) sig sr) (\<lambda>features.
     and_then ([Reindex], Inr (reindex features (selected_features_names g))) (\<lambda>features_reindexed.
     and_then ([Replace], Inr (replace [PosInf, NegInf] NaN features_reindexed)) (\<lambda>features_no_inf.
     and_then ([ImputerTransform features_no_inf], call_method (imputer g) features_no_inf) (\<lambda>features_imputed.
     and_then ([ModelPredict features_imputed], call_method (model g) features_imputed) (\<lambda>prediction.
     and_then ([], getitem prediction 0) (\<lambda>pred_array.
     ([Interpret pred_array], label_interpreter pred_array)))))))"

text \<open>
  \<^verbatim>\<open>run_prediction_pipeline\<close> (lines 52 to 79): the body, and the \<^verbatim>\<open>except Exception\<close> that
  shows the message and returns \<^verbatim>\<open>None, None\<close>.
\<close>

definition pipeline_message :: "exn \<Rightarrow> string" where
  "pipeline_message e = ''Terjadi error saat menjalankan pipeline prediksi: '' @ str_exn e"

definition run_prediction_pipeline ::
  "'c extractor \<Rightarrow> 'c globals \<Rightarrow> signal \<Rightarrow> nat \<Rightarrow> event list \<times> (string option \<times> string option)" where
  "run_prediction_pipeline tsfel g sig sr =
     (case pipeline_body tsfel g sig sr of
        (evs, Inl e) \<Rightarrow> (evs @ [StError (pipeline_message e)], (None, None))
      | (evs, Inr (kata, pembicara)) \<Rightarrow> (evs, (Some kata, Some pembicara)))"

section \<open>The audio normalizer\<close>

text \<open>
  The file system maps a path to the bytes of the file there. A decoded audio file has its
  samples (one-dimensional when the file has one channel) and its native sample rate.
  \<^verbatim>\<open>librosa.load\<close> reads from a path or from an in-memory buffer.
\<close>

type_synonym filesystem = "string \<rightharpoonup> string"

record audio =
  samples :: signal
  native_sr :: nat

datatype source = Path string | BytesIO string

text \<open>
  How \<^verbatim>\<open>subprocess.run(command, stdout=PIPE, stderr=PIPE)\<close> ends: the program is not on the
  \<^verbatim>\<open>PATH\<close>, or it exits with a return code, its captured standard error (the decoded
  text, \<open>None\<close> when the bytes are not valid UTF-8) and the content of the output file,
  if it wrote one.
\<close>

datatype process_exit = NotInstalled | Exited int "string option" "string option"

text \<open>
  What the script takes from outside: the extractor of tsfel, \<^verbatim>\<open>os.path.splitext(name)[-1]\<close>,
  the name \<^verbatim>\<open>NamedTemporaryFile\<close> chooses for a suffix, the run of a command on a file
  system, the decoder behind \<^verbatim>\<open>librosa.load\<close>, and the two signal operations of librosa.
\<close>

record 'c world =
  tsfel_extractor :: "'c extractor"
  splitext_ext :: "string \<Rightarrow> string"
  temp_name :: "string \<Rightarrow> string"
  subprocess_run :: "filesystem \<Rightarrow> string list \<Rightarrow> process_exit"
  decode :: "string \<Rightarrow> exn + audio"
  to_mono :: "real list list \<Rightarrow> real list"
  resample :: "real list \<Rightarrow> nat \<Rightarrow> nat \<Rightarrow> real list"

record uploaded_file =
  upload_name :: string
  getvalue :: string

text \<open>
  \<^verbatim>\<open>librosa.load(src, sr=..., mono=...)\<close>, after the documentation of librosa (an external
  library): decode; with \<^verbatim>\<open>mono=True\<close> mix all channels down to one; with a target rate
  resample to it and return that rate, with \<^verbatim>\<open>sr=None\<close> keep the native rate. The
  argument \<open>to_one\<close> is the keyword \<^verbatim>\<open>mono\<close>.
\<close>

definition open_source :: "filesystem \<Rightarrow> source \<Rightarrow> exn + string" where
  "open_source fs src =
     (case src of
        BytesIO b \<Rightarrow> Inr b
      | Path p \<Rightarrow> (case fs p of None \<Rightarrow> Inl (FileNotFoundError p) | Some b \<Rightarrow> Inr b))"

fun librosa_resample :: "'c world \<Rightarrow> signal \<Rightarrow> nat \<Rightarrow> nat \<Rightarrow> signal" where
  "librosa_resample w (Mono xs) orig_sr target_sr =
     (if orig_sr = target_sr then Mono xs else Mono (resample w xs orig_sr target_sr))"
| "librosa_resample w (Multi chans) orig_sr target_sr =
     (if orig_sr = target_sr then Multi chans
      else Multi (map (\<lambda>xs. resample w xs orig_sr target_sr) chans))"

fun librosa_to_mono :: "'c world \<Rightarrow> bool \<Rightarrow> signal \<Rightarrow> signal" where
  "librosa_to_mono w to_one (Mono xs) = Mono xs"
| "librosa_to_mono w to_one (Multi chans) =
     (if to_one then Mono (to_mono w chans) else Multi chans)"

definition librosa_load ::
  "'c world \<Rightarrow> filesystem \<Rightarrow> source \<Rightarrow> nat option \<Rightarrow> bool \<Rightarrow> exn + signal \<times> nat" where
  "librosa_load w fs src sr to_one =
     (case open_source fs src of
        Inl e \<Rightarrow> Inl e
      | Inr b \<Rightarrow>
     (case decode w b of
        Inl e \<Rightarrow> Inl e
      | Inr a \<Rightarrow>
          (let y = librosa_to_mono w to_one (samples a)
           in case sr of
                None \<Rightarrow> Inr (y, native_sr a)
              | Some target \<Rightarrow> Inr (librosa_resample w y (native_sr a) target, target))))"

text \<open>Decimal digits of a number, Python's \<^verbatim>\<open>str\<close>.\<close>

fun str_nat :: "nat \<Rightarrow> string" where
  "str_nat n =
     (if n < 10 then [''0123456789'' ! n] else str_nat (n div 10) @ [''0123456789'' ! (n mod 10)])"

text \<open>
  The body of the \<^verbatim>\<open>try\<close> of \<^verbatim>\<open>process_uploaded_file\<close> (lines 96 to 108): run FFmpeg with
  \<^verbatim>\<open>check=True\<close>, load the converted file, call the pipeline. The result is the file system
  it leaves, the log, and the value returned or the exception raised.
\<close>

definition ffmpeg_command :: "string \<Rightarrow> string \<Rightarrow> string list" where
  "ffmpeg_command input_temp_path output_temp_path =
     [''ffmpeg'', ''-i'', input_temp_path, ''-ac'', ''1'', ''-ar'', str_nat TARGET_SR,
      output_temp_path, ''-y'']"

definition convert_and_predict ::
  "'c world \<Rightarrow> 'c globals \<Rightarrow> filesystem \<Rightarrow> string \<Rightarrow> string \<Rightarrow>
     filesystem \<times> event list \<times> (exn + string option \<times> string option)" where
  "convert_and_predict w g fs input_temp_path output_temp_path =
     (let command = ffmpeg_command input_temp_path output_temp_path
      in case subprocess_run w fs command of
           NotInstalled \<Rightarrow> (fs, [], Inl (FileNotFoundError ''ffmpeg''))
         | Exited returncode err out \<Rightarrow>
             (let fs' = (case out of None \<Rightarrow> fs | Some b \<Rightarrow> fs(output_temp_path \<mapsto> b))
              in if returncode \<noteq> 0 then (fs', [], Inl (CalledProcessError err))
                 else (case librosa_load w fs' (Path output_temp_path) (Some TARGET_SR) True of
                         Inl e \<Rightarrow> (fs', [], Inl e)
                       | Inr (sig, sr) \<Rightarrow>
                           (case run_prediction_pipeline (tsfel_extractor w) g sig sr of
                              (evs, labels) \<Rightarrow> (fs', evs, Inr labels)))))"

text \<open>
  The three \<^verbatim>\<open>except\<close> clauses of \<^verbatim>\<open>process_uploaded_file\<close>, in their order. In the first,
  \<^verbatim>\<open>e.stderr.decode()\<close> raises when the bytes are not valid UTF-8; that exception leaves
  the function.
\<close>

fun upload_handlers :: "exn \<Rightarrow> event list \<times> (exn + string option \<times> string option)" where
  "upload_handlers (CalledProcessError None) =
     ([], Inl (Exception ''UnicodeDecodeError''))"
| "upload_handlers (CalledProcessError (Some err)) =
     ([StError (''Error saat konversi FFmpeg: '' @ err)], Inr (None, None))"
| "upload_handlers (FileNotFoundError m) =
     ([StError ''ERROR: FFmpeg tidak ditemukan. Pastikan FFmpeg sudah terinstal.''], Inr (None, None))"
| "upload_handlers (Exception m) =
     ([StError (''Terjadi error saat memproses file upload: '' @ m)], Inr (None, None))"

text \<open>The \<^verbatim>\<open>finally\<close> clause: \<^verbatim>\<open>if os.path.exists(p): os.remove(p)\<close>.\<close>

definition remove_if_exists :: "filesystem \<Rightarrow> string \<Rightarrow> filesystem" where
  "remove_if_exists fs p = (if fs p \<noteq> None then fs(p := None) else fs)"

text \<open>
  \<^verbatim>\<open>process_uploaded_file\<close> (lines 82 to 124). The temporary file is created and the upload
  written to it before the \<^verbatim>\<open>try\<close>; creating and writing are taken to succeed.
\<close>

definition process_uploaded_file ::
  "'c world \<Rightarrow> 'c globals \<Rightarrow> filesystem \<Rightarrow> uploaded_file \<Rightarrow>
     filesystem \<times> event list \<times> (exn + string option \<times> string option)" where
  "process_uploaded_file w g fs audio_file =
     (let file_extension = splitext_ext w (upload_name audio_file);
          input_temp_path = temp_name w file_extension;
          fs1 = fs(input_temp_path \<mapsto> getvalue audio_file);
          output_temp_path = input_temp_path @ ''.wav''
      in case convert_and_predict w g fs1 input_temp_path output_temp_path of
           (fs2, evs, outcome) \<Rightarrow>
             (let handled = (case outcome of Inl e \<Rightarrow> upload_handlers e | Inr labels \<Rightarrow> ([], Inr labels));
                  fs3 = remove_if_exists (remove_if_exists fs2 input_temp_path) output_temp_path
              in (fs3, evs @ fst handled, snd handled)))"

text \<open>
  The handler of the second tab (lines 176 to 191), from the WAV bytes of the recording:
  load them, call the pipeline; any exception of the load is shown. \<open>None\<close> is returned
  when the load raised, else what the pipeline returned.
\<close>

definition predict_recording ::
  "'c world \<Rightarrow> 'c globals \<Rightarrow> filesystem \<Rightarrow> string \<Rightarrow>
     event list \<times> (string option \<times> string option) option" where
  "predict_recording w g fs wav_audio_bytes =
     (case librosa_load w fs (BytesIO wav_audio_bytes) (Some TARGET_SR) True of
        Inl e \<Rightarrow> ([StError (''Error saat memproses rekaman: '' @ str_exn e)], None)
      | Inr (sig, sr) \<Rightarrow>
          (case run_prediction_pipeline (tsfel_extractor w) g sig sr of
             (evs, labels) \<Rightarrow> (evs, Some labels)))"

section \<open>Example inputs\<close>

text \<open>
  Concrete inputs on which the theorems below are evaluated: a table of three features of
  a silent signal, two of them infinite; globals whose imputer puts 0 for NaN and whose
  classifier always predicts the row 1, 0, 0; the globals after a load that returned
  \<^verbatim>\<open>None\<close> four times; a world, given how FFmpeg ends, whose decoder knows one file
  content, a stereo recording at 44100 Hz.
\<close>

definition example_features :: "(label, num) alist" where
  "example_features =
     DAList.Alist [(Str ''0_Mean'', Finite 0), (Str ''0_Kurtosis'', PosInf), (Str ''0_Skewness'', NegInf)]"

definition example_names :: "label list" where
  "example_names = [Str ''0_Kurtosis'', Str ''0_Entropy'', Str ''0_Mean'']"

definition example_globals :: "unit globals" where
  "example_globals =
     \<lparr>model = Some (\<lambda>rows. Inr [[1, 0, 0]]),
      imputer = Some (\<lambda>df. Inr [map (\<lambda>(c, x). if x = NaN then Finite 0 else x) df]),
      selected_features_names = PyList example_names,
      tsfel_cfg = Some ()\<rparr>"

definition none_globals :: "unit globals" where
  "none_globals =
     \<lparr>model = None, imputer = None, selected_features_names = PyNone, tsfel_cfg = None\<rparr>"

definition example_world :: "process_exit \<Rightarrow> unit world" where
  "example_world exit =
     \<lparr>tsfel_extractor =
        (\<lambda>cfg sig sr. case cfg of
                         None \<Rightarrow> Inl (Exception ''TypeError: NoneType object is not iterable'')
                       | Some u \<Rightarrow> Inr example_features),
      splitext_ext = (\<lambda>name. ''.mp3''),
      temp_name = (\<lambda>suffix. ''/tmp/tmpk3x'' @ suffix),
      subprocess_run = (\<lambda>fs command. exit),
      decode =
        (\<lambda>b. if b = ''RIFF'' then Inr \<lparr>samples = Multi [[0, 0], [0, 0]], native_sr = 44100\<rparr>
              else Inl (Exception ''NoBackendError'')),
      to_mono = (\<lambda>chans. case chans of [] \<Rightarrow> [] | xs # rest \<Rightarrow> xs),
      resample = (\<lambda>xs orig_sr target_sr. xs)\<rparr>"

definition example_upload :: uploaded_file where
  "example_upload = \<lparr>upload_name = ''buka.mp3'', getvalue = ''ID3''\<rparr>"

definition example_disk :: "exn + pyobj \<Rightarrow> (model_obj, imputer_obj, unit) artifacts" where
  "example_disk selected =
     \<lparr>model_suara_joblib = Inr (\<lambda>rows. Inr [[1, 0, 0]]),
      imputer_joblib = Inr (\<lambda>df. Inr [map snd df]),
      selected_features_joblib = selected,
      features_by_domain = Inr ()\<rparr>"

section \<open>Properties of the label interpreter\<close>

lemma label_interpreter_long:
  assumes "3 \<le> length v"
  shows "label_interpreter v =
           Inr (if v ! 0 = 1 then ''Buka'' else ''Tutup'',
                if v ! 2 = 1 then ''Fikri'' else ''Fauzan'')"
proof -
  from assms have "getitem v 0 = Inr (v ! 0)" and "getitem v 2 = Inr (v ! 2)"
    by (auto simp: getitem_def)
  then show ?thesis by (simp add: label_interpreter_def)
qed

text \<open>
  C1 (as amended). For every prediction vector of length at least 3 the interpreter
  compares with 1: the word is 'Buka' exactly when index 0 holds 1 and 'Tutup' for every
  other value, zero included; the speaker is 'Fikri' exactly when index 2 holds 1 and
  'Fauzan' for every other value. A vector with 1 at index 0 and 0 at index 2 gives
  ('Buka', 'Fauzan'), one with 0 at index 0 and 1 at index 2 gives ('Tutup', 'Fikri').
\<close>

theorem label_interpreter_compares_with_one:
  "3 \<le> length v \<Longrightarrow>
     (\<exists>word speaker. label_interpreter v = Inr (word, speaker)
        \<and> (v ! 0 = 1 \<longrightarrow> word = ''Buka'') \<and> (v ! 0 \<noteq> 1 \<longrightarrow> word = ''Tutup'')
        \<and> (v ! 2 = 1 \<longrightarrow> speaker = ''Fikri'') \<and> (v ! 2 \<noteq> 1 \<longrightarrow> speaker = ''Fauzan''))
     \<and> (v ! 0 = 1 \<and> v ! 2 = 0 \<longrightarrow> label_interpreter v = Inr (''Buka'', ''Fauzan''))
     \<and> (v ! 0 = 0 \<and> v ! 2 = 1 \<longrightarrow> label_interpreter v = Inr (''Tutup'', ''Fikri''))"
  by (simp add: label_interpreter_long)

theorem label_interpreter_compares_with_one_witness:
  "3 \<le> length [1, 7, 0 :: int] \<and> label_interpreter [1, 7, 0] = Inr (''Buka'', ''Fauzan'')
   \<and> label_interpreter [0, 7, 1] = Inr (''Tutup'', ''Fikri'')"
  using label_interpreter_compares_with_one [of "[1, 7, 0]"] label_interpreter_compares_with_one [of "[0, 7, 1]"]
  by simp

text \<open>
  The claim as the specification words it, "a nonzero value at index 0 gives label A",
  fails: 2 is nonzero and is not 1.
\<close>

theorem label_interpreter_nonzero_counterexample:
  "3 \<le> length [2, 0, 2 :: int] \<and> [2, 0, 2] ! 0 \<noteq> (0::int) \<and> [2, 0, 2] ! 2 \<noteq> (0::int)
   \<and> label_interpreter [2, 0, 2] = Inr (''Tutup'', ''Fauzan'')"
  by (simp add: label_interpreter_def getitem_def)

text \<open>
  C9. Two prediction vectors of length at least 3 that agree at positions 0 and 2 are
  interpreted alike: position 1 and every position beyond 2 have no influence.
\<close>

theorem label_interpreter_reads_positions_0_and_2:
  "3 \<le> length u \<Longrightarrow> 3 \<le> length v \<Longrightarrow> u ! 0 = v ! 0 \<Longrightarrow> u ! 2 = v ! 2 \<Longrightarrow>
     label_interpreter u = label_interpreter v"
  by (simp add: label_interpreter_long)

theorem label_interpreter_reads_positions_0_and_2_witness:
  "3 \<le> length [1, 0, 0 :: int] \<and> 3 \<le> length [1, 5, 0, 9 :: int]
   \<and> label_interpreter [1, 0, 0] = label_interpreter [1, 5, 0, 9]
   \<and> label_interpreter [1, 5, 0, 9] = Inr (''Buka'', ''Fauzan'')"
proof -
  have "label_interpreter [1, 0, 0] = label_interpreter [1, 5, 0, 9]"
    using label_interpreter_reads_positions_0_and_2 [of "[1, 0, 0]" "[1, 5, 0, 9]"] by simp
  moreover have "label_interpreter [1, 5, 0, 9] = Inr (''Buka'', ''Fauzan'')"
    by (simp add: label_interpreter_def getitem_def)
  ultimately show ?thesis by simp
qed

section \<open>Properties of the feature pipeline\<close>

lemma and_then_Inl: "and_then (evs, Inl e) f = (evs, Inl e)"
  by (simp add: and_then_def)

lemma and_then_Inr: "and_then (evs, Inr x) f = (evs @ fst (f x), snd (f x))"
  by (simp add: and_then_def split: prod.splits)

lemmas pipeline_unfold =
  run_prediction_pipeline_def pipeline_body_def and_then_Inl and_then_Inr

lemmas pipeline_splits =
  run_prediction_pipeline_def pipeline_body_def and_then_def

lemma example_features_impl:
  "DAList.impl_of example_features =
     [(Str ''0_Mean'', Finite 0), (Str ''0_Kurtosis'', PosInf), (Str ''0_Skewness'', NegInf)]"
  by (simp add: example_features_def DAList.impl_of_Alist)

lemmas example_eval =
  example_world_def example_globals_def none_globals_def example_names_def conform_def
  DAList.lookup.rep_eq example_features_impl replace_def call_method_def getitem_def
  label_interpreter_def pipeline_message_def

lemma example_run:
  "run_prediction_pipeline (tsfel_extractor (example_world ex)) example_globals (Mono [0, 0]) 16000 =
     ([TsfelExtract (Mono [0, 0]) 16000, Reindex, Replace,
       ImputerTransform [(Str ''0_Kurtosis'', NaN), (Str ''0_Entropy'', NaN), (Str ''0_Mean'', Finite 0)],
       ModelPredict [[Finite 0, Finite 0, Finite 0]], Interpret [1, 0, 0]],
      (Some ''Buka'', Some ''Fauzan''))"
  by (simp add: pipeline_splits example_eval)

subsection \<open>Projection onto the selected feature names\<close>

lemma conform_labels: "map fst (conform features names) = names"
  by (induction names) (simp_all add: conform_def)

lemma conform_nth:
  "i < length names \<Longrightarrow>
   conform features names ! i =
     (names ! i, case DAList.lookup features (names ! i) of None \<Rightarrow> NaN | Some x \<Rightarrow> x)"
  by (simp add: conform_def)

lemma lookup_present:
  "(n, x) \<in> set (DAList.impl_of features) \<Longrightarrow> DAList.lookup features n = Some x"
  by (simp add: DAList.lookup.rep_eq)

lemma lookup_absent:
  "n \<notin> fst ` set (DAList.impl_of features) \<Longrightarrow> DAList.lookup features n = None"
  by (simp add: DAList.lookup.rep_eq map_of_eq_None_iff)

lemma replace_labels: "map fst (replace to_replace new df) = map fst df"
  by (induction df) (auto simp: replace_def)

lemma replace_cells:
  "map snd (replace [PosInf, NegInf] NaN df) =
     map (\<lambda>x. if x = PosInf \<or> x = NegInf then NaN else x) (map snd df)"
  by (induction df) (auto simp: replace_def)

lemma replace_no_inf:
  "(c, x) \<in> set (replace [PosInf, NegInf] NaN df) \<Longrightarrow> x \<noteq> PosInf \<and> x \<noteq> NegInf"
  by (auto simp: replace_def split: if_splits)

lemma imputer_argument:
  "ImputerTransform df \<in> set (fst (run_prediction_pipeline tsfel g sig sr)) \<Longrightarrow>
   \<exists>features. tsfel (tsfel_cfg g) sig sr = Inr features
      \<and> df = replace [PosInf, NegInf] NaN (reindex features (selected_features_names g))"
  by (auto simp: pipeline_splits split: sum.splits prod.splits)

lemma imputer_reached:
  "tsfel (tsfel_cfg g) sig sr = Inr features \<Longrightarrow>
   ImputerTransform (replace [PosInf, NegInf] NaN (reindex features (selected_features_names g)))
     \<in> set (fst (run_prediction_pipeline tsfel g sig sr))"
  by (auto simp: pipeline_splits split: sum.splits prod.splits)

text \<open>
  C3. For every extracted feature table, reindexing onto the list of selected names gives
  a row whose columns are exactly the selected names, in their order; at a name the
  extracted table lacks the cell is NaN, at a name it has the cell is the extracted one;
  the projection has no failing case. The table handed to the imputer has exactly the
  selected names as its columns, in their order, whatever the extraction produced.
\<close>

theorem reindex_gives_selected_columns:
  "map fst (reindex features (PyList names)) = names
   \<and> length (reindex features (PyList names)) = length names
   \<and> (\<forall>i < length names.
        (names ! i \<notin> fst ` set (DAList.impl_of features) \<longrightarrow>
           reindex features (PyList names) ! i = (names ! i, NaN))
      \<and> (\<forall>x. (names ! i, x) \<in> set (DAList.impl_of features) \<longrightarrow>
           reindex features (PyList names) ! i = (names ! i, x)))
   \<and> (selected_features_names g = PyList names
        \<and> ImputerTransform df \<in> set (fst (run_prediction_pipeline tsfel g sig sr)) \<longrightarrow>
      map fst df = names)"
proof -
  have cols: "map fst (reindex features (PyList names)) = names"
    by (simp add: conform_labels)
  then have len: "length (reindex features (PyList names)) = length names"
    by (metis length_map)
  have cells: "\<forall>i < length names.
        (names ! i \<notin> fst ` set (DAList.impl_of features) \<longrightarrow>
           reindex features (PyList names) ! i = (names ! i, NaN))
      \<and> (\<forall>x. (names ! i, x) \<in> set (DAList.impl_of features) \<longrightarrow>
           reindex features (PyList names) ! i = (names ! i, x))"
    by (simp add: conform_nth lookup_present lookup_absent)
  have handed: "selected_features_names g = PyList names
        \<and> ImputerTransform df \<in> set (fst (run_prediction_pipeline tsfel g sig sr)) \<longrightarrow>
      map fst df = names"
  proof
    assume a: "selected_features_names g = PyList names
        \<and> ImputerTransform df \<in> set (fst (run_prediction_pipeline tsfel g sig sr))"
    with imputer_argument [of df tsfel g sig sr] obtain fs
      where "df = replace [PosInf, NegInf] NaN (reindex fs (PyList names))" by auto
    then show "map fst df = names" by (simp add: replace_labels conform_labels)
  qed
  from cols len cells handed show ?thesis by blast
qed

theorem reindex_gives_selected_columns_witness:
  "reindex example_features (PyList example_names) =
     [(Str ''0_Kurtosis'', PosInf), (Str ''0_Entropy'', NaN), (Str ''0_Mean'', Finite 0)]
   \<and> Str ''0_Entropy'' \<notin> fst ` set (DAList.impl_of example_features)
   \<and> (Str ''0_Mean'', Finite 0) \<in> set (DAList.impl_of example_features)
   \<and> selected_features_names example_globals = PyList example_names
   \<and> ImputerTransform [(Str ''0_Kurtosis'', NaN), (Str ''0_Entropy'', NaN), (Str ''0_Mean'', Finite 0)]
        \<in> set (fst (run_prediction_pipeline (tsfel_extractor (example_world NotInstalled))
                       example_globals (Mono [0, 0]) 16000))
   \<and> map fst [(Str ''0_Kurtosis'', NaN), (Str ''0_Entropy'', NaN), (Str ''0_Mean'', Finite (0::real))]
        = example_names"
  using reindex_gives_selected_columns
          [of example_features example_names example_globals
              "[(Str ''0_Kurtosis'', NaN), (Str ''0_Entropy'', NaN), (Str ''0_Mean'', Finite 0)]"
              "tsfel_extractor (example_world NotInstalled)" "Mono [0, 0]" 16000]
  by (simp add: example_run) (simp add: example_eval)

subsection \<open>Replacement of the infinities\<close>

text \<open>
  C6. The replacement turns every positive-infinite and every negative-infinite cell into
  NaN and leaves labels, order and every other cell as they are; every table the pipeline
  hands to the imputer is the result of that replacement and holds no infinite cell; and
  whatever cells the extracted table holds, the pipeline reaches the imputer once the
  extraction has returned: the replacement has no failing case.
\<close>

theorem infinities_replaced_before_imputation:
  "(\<forall>c x. (c, x) \<in> set (replace [PosInf, NegInf] NaN df) \<longrightarrow> x \<noteq> PosInf \<and> x \<noteq> NegInf)
   \<and> map fst (replace [PosInf, NegInf] NaN df) = map fst df
   \<and> map snd (replace [PosInf, NegInf] NaN df) =
       map (\<lambda>x. if x = PosInf \<or> x = NegInf then NaN else x) (map snd df)
   \<and> (ImputerTransform handed \<in> set (fst (run_prediction_pipeline tsfel g sig sr)) \<longrightarrow>
        (\<forall>c x. (c, x) \<in> set handed \<longrightarrow> x \<noteq> PosInf \<and> x \<noteq> NegInf))
   \<and> (tsfel (tsfel_cfg g) sig sr = Inr features \<longrightarrow>
        ImputerTransform (replace [PosInf, NegInf] NaN (reindex features (selected_features_names g)))
          \<in> set (fst (run_prediction_pipeline tsfel g sig sr)))"
proof -
  have "ImputerTransform handed \<in> set (fst (run_prediction_pipeline tsfel g sig sr)) \<longrightarrow>
        (\<forall>c x. (c, x) \<in> set handed \<longrightarrow> x \<noteq> PosInf \<and> x \<noteq> NegInf)"
    using imputer_argument [of handed tsfel g sig sr] replace_no_inf by blast
  moreover have "\<forall>c x. (c, x) \<in> set (replace [PosInf, NegInf] NaN df) \<longrightarrow> x \<noteq> PosInf \<and> x \<noteq> NegInf"
    using replace_no_inf by blast
  ultimately show ?thesis
    using replace_labels [of "[PosInf, NegInf]" NaN df] replace_cells [of df]
      imputer_reached [of tsfel g sig sr features]
    by blast
qed

theorem infinities_replaced_before_imputation_witness:
  "replace [PosInf, NegInf] NaN [(Str ''0_Kurtosis'', PosInf), (Str ''0_Skewness'', NegInf),
                                  (Str ''0_Entropy'', NaN), (Str ''0_Mean'', Finite 0)]
     = [(Str ''0_Kurtosis'', NaN), (Str ''0_Skewness'', NaN), (Str ''0_Entropy'', NaN),
        (Str ''0_Mean'', Finite 0)]
   \<and> tsfel_extractor (example_world NotInstalled) (tsfel_cfg example_globals) (Mono [0, 0]) 16000
       = Inr example_features
   \<and> (Str ''0_Kurtosis'', PosInf) \<in> set (DAList.impl_of example_features)
   \<and> ImputerTransform [(Str ''0_Kurtosis'', NaN), (Str ''0_Entropy'', NaN), (Str ''0_Mean'', Finite 0)]
        \<in> set (fst (run_prediction_pipeline (tsfel_extractor (example_world NotInstalled))
                       example_globals (Mono [0, 0]) 16000))"
  using infinities_replaced_before_imputation
          [of "[(Str ''0_Kurtosis'', PosInf), (Str ''0_Skewness'', NegInf),
                (Str ''0_Entropy'', NaN), (Str ''0_Mean'', Finite 0)]"
              "[(Str ''0_Kurtosis'', NaN), (Str ''0_Entropy'', NaN), (Str ''0_Mean'', Finite 0)]"
              "tsfel_extractor (example_world NotInstalled)" example_globals "Mono [0, 0]" 16000
              example_features]
  by (simp add: example_run) (simp add: example_eval)

subsection \<open>Failure of a step\<close>

lemma extraction_fails:
  "tsfel (tsfel_cfg g) sig sr = Inl e \<Longrightarrow>
   run_prediction_pipeline tsfel g sig sr =
     ([TsfelExtract sig sr, StError (pipeline_message e)], (None, None))"
  by (simp add: pipeline_unfold)

lemma imputation_fails:
  "tsfel (tsfel_cfg g) sig sr = Inr features \<Longrightarrow>
   df = replace [PosInf, NegInf] NaN (reindex features (selected_features_names g)) \<Longrightarrow>
   call_method (imputer g) df = Inl e \<Longrightarrow>
   run_prediction_pipeline tsfel g sig sr =
     ([TsfelExtract sig sr, Reindex, Replace, ImputerTransform df, StError (pipeline_message e)],
      (None, None))"
  by (simp add: pipeline_unfold)

lemma classification_fails:
  "tsfel (tsfel_cfg g) sig sr = Inr features \<Longrightarrow>
   df = replace [PosInf, NegInf] NaN (reindex features (selected_features_names g)) \<Longrightarrow>
   call_method (imputer g) df = Inr imputed \<Longrightarrow>
   call_method (model g) imputed = Inl e \<Longrightarrow>
   run_prediction_pipeline tsfel g sig sr =
     ([TsfelExtract sig sr, Reindex, Replace, ImputerTransform df, ModelPredict imputed,
       StError (pipeline_message e)], (None, None))"
  by (simp add: pipeline_unfold)

lemma first_row_fails:
  "tsfel (tsfel_cfg g) sig sr = Inr features \<Longrightarrow>
   df = replace [PosInf, NegInf] NaN (reindex features (selected_features_names g)) \<Longrightarrow>
   call_method (imputer g) df = Inr imputed \<Longrightarrow>
   call_method (model g) imputed = Inr prediction \<Longrightarrow>
   getitem prediction 0 = Inl e \<Longrightarrow>
   run_prediction_pipeline tsfel g sig sr =
     ([TsfelExtract sig sr, Reindex, Replace, ImputerTransform df, ModelPredict imputed,
       StError (pipeline_message e)], (None, None))"
  by (simp add: pipeline_unfold)

lemma interpretation_fails:
  "tsfel (tsfel_cfg g) sig sr = Inr features \<Longrightarrow>
   df = replace [PosInf, NegInf] NaN (reindex features (selected_features_names g)) \<Longrightarrow>
   call_method (imputer g) df = Inr imputed \<Longrightarrow>
   call_method (model g) imputed = Inr prediction \<Longrightarrow>
   getitem prediction 0 = Inr pred_array \<Longrightarrow>
   label_interpreter pred_array = Inl e \<Longrightarrow>
   run_prediction_pipeline tsfel g sig sr =
     ([TsfelExtract sig sr, Reindex, Replace, ImputerTransform df, ModelPredict imputed,
       Interpret pred_array, StError (pipeline_message e)], (None, None))"
  by (simp add: pipeline_unfold)

lemma all_steps_succeed:
  "tsfel (tsfel_cfg g) sig sr = Inr features \<Longrightarrow>
   df = replace [PosInf, NegInf] NaN (reindex features (selected_features_names g)) \<Longrightarrow>
   call_method (imputer g) df = Inr imputed \<Longrightarrow>
   call_method (model g) imputed = Inr prediction \<Longrightarrow>
   getitem prediction 0 = Inr pred_array \<Longrightarrow>
   label_interpreter pred_array = Inr (kata, pembicara) \<Longrightarrow>
   run_prediction_pipeline tsfel g sig sr =
     ([TsfelExtract sig sr, Reindex, Replace, ImputerTransform df, ModelPredict imputed,
       Interpret pred_array], (Some kata, Some pembicara))"
  by (simp add: pipeline_unfold)

text \<open>
  C4. Whichever step of the pipeline raises (the extraction, the imputation, the
  classification or the read of its first row, the interpretation; the projection and the
  replacement of infinities have no failing case), no later step is executed: the log
  ends with the failing call followed by the one message shown to the user, and the
  request returns \<^verbatim>\<open>None, None\<close>, never a label next to \<^verbatim>\<open>None\<close> and never an exception.
  Only when every step returns is a label pair returned.
\<close>

theorem failed_step_aborts_pipeline:
  "(tsfel (tsfel_cfg g) sig sr = Inl e \<longrightarrow>
      run_prediction_pipeline tsfel g sig sr =
        ([TsfelExtract sig sr, StError (pipeline_message e)], (None, None)))
   \<and> (tsfel (tsfel_cfg g) sig sr = Inr features
        \<and> df = replace [PosInf, NegInf] NaN (reindex features (selected_features_names g)) \<longrightarrow>
      (call_method (imputer g) df = Inl e \<longrightarrow>
         run_prediction_pipeline tsfel g sig sr =
           ([TsfelExtract sig sr, Reindex, Replace, ImputerTransform df, StError (pipeline_message e)],
            (None, None)))
      \<and> (call_method (imputer g) df = Inr imputed \<longrightarrow>
         (call_method (model g) imputed = Inl e \<longrightarrow>
            run_prediction_pipeline tsfel g sig sr =
              ([TsfelExtract sig sr, Reindex, Replace, ImputerTransform df, ModelPredict imputed,
                StError (pipeline_message e)], (None, None)))
         \<and> (call_method (model g) imputed = Inr prediction \<longrightarrow>
            (getitem prediction 0 = Inl e \<longrightarrow>
               run_prediction_pipeline tsfel g sig sr =
                 ([TsfelExtract sig sr, Reindex, Replace, ImputerTransform df, ModelPredict imputed,
                   StError (pipeline_message e)], (None, None)))
            \<and> (getitem prediction 0 = Inr pred_array \<longrightarrow>
               (label_interpreter pred_array = Inl e \<longrightarrow>
                  run_prediction_pipeline tsfel g sig sr =
                    ([TsfelExtract sig sr, Reindex, Replace, ImputerTransform df,
                      ModelPredict imputed, Interpret pred_array, StError (pipeline_message e)],
                     (None, None)))
               \<and> (label_interpreter pred_array = Inr (kata, pembicara) \<longrightarrow>
                  run_prediction_pipeline tsfel g sig sr =
                    ([TsfelExtract sig sr, Reindex, Replace, ImputerTransform df,
                      ModelPredict imputed, Interpret pred_array],
                     (Some kata, Some pembicara)))))))"
  using extraction_fails [of tsfel g sig sr e]
    imputation_fails [of tsfel g sig sr features df e]
    classification_fails [of tsfel g sig sr features df imputed e]
    first_row_fails [of tsfel g sig sr features df imputed prediction e]
    interpretation_fails [of tsfel g sig sr features df imputed prediction pred_array e]
    all_steps_succeed [of tsfel g sig sr features df imputed prediction pred_array kata pembicara]
  by blast

text \<open>
  The theorem at three requests: with the globals of a load that returned \<^verbatim>\<open>None\<close> four
  times the extraction raises; with a missing imputer the imputation raises; with a
  classifier that predicts rows of two labels the interpretation raises.
\<close>

theorem failed_step_aborts_pipeline_witness:
  "tsfel_extractor (example_world NotInstalled) (tsfel_cfg none_globals) (Mono [0, 0]) 16000
     = Inl (Exception ''TypeError: NoneType object is not iterable'')
   \<and> run_prediction_pipeline (tsfel_extractor (example_world NotInstalled)) none_globals
        (Mono [0, 0]) 16000
     = ([TsfelExtract (Mono [0, 0]) 16000,
         StError ''Terjadi error saat menjalankan pipeline prediksi: TypeError: NoneType object is not iterable''],
        (None, None))
   \<and> call_method (imputer (example_globals\<lparr>imputer := None\<rparr>))
        [(Str ''0_Kurtosis'', NaN), (Str ''0_Entropy'', NaN), (Str ''0_Mean'', Finite 0)]
     = Inl (Exception ''AttributeError: NoneType object has no such attribute'')
   \<and> run_prediction_pipeline (tsfel_extractor (example_world NotInstalled))
        (example_globals\<lparr>imputer := None\<rparr>) (Mono [0, 0]) 16000
     = ([TsfelExtract (Mono [0, 0]) 16000, Reindex, Replace,
         ImputerTransform [(Str ''0_Kurtosis'', NaN), (Str ''0_Entropy'', NaN), (Str ''0_Mean'', Finite 0)],
         StError ''Terjadi error saat menjalankan pipeline prediksi: AttributeError: NoneType object has no such attribute''],
        (None, None))
   \<and> label_interpreter [1, 0] = Inl (Exception ''IndexError: index out of bounds'')
   \<and> run_prediction_pipeline (tsfel_extractor (example_world NotInstalled))
        (example_globals\<lparr>model := Some (\<lambda>rows. Inr [[1, 0]])\<rparr>) (Mono [0, 0]) 16000
     = ([TsfelExtract (Mono [0, 0]) 16000, Reindex, Replace,
         ImputerTransform [(Str ''0_Kurtosis'', NaN), (Str ''0_Entropy'', NaN), (Str ''0_Mean'', Finite 0)],
         ModelPredict [[Finite 0, Finite 0, Finite 0]], Interpret [1, 0],
         StError ''Terjadi error saat menjalankan pipeline prediksi: IndexError: index out of bounds''],
        (None, None))"
  using failed_step_aborts_pipeline
          [of "tsfel_extractor (example_world NotInstalled)" none_globals "Mono [0, 0]" 16000
              "Exception ''TypeError: NoneType object is not iterable''"]
        failed_step_aborts_pipeline
          [of "tsfel_extractor (example_world NotInstalled)" "example_globals\<lparr>imputer := None\<rparr>"
              "Mono [0, 0]" 16000
              "Exception ''AttributeError: NoneType object has no such attribute''"
              example_features
              "[(Str ''0_Kurtosis'', NaN), (Str ''0_Entropy'', NaN), (Str ''0_Mean'', Finite 0)]"]
        failed_step_aborts_pipeline
          [of "tsfel_extractor (example_world NotInstalled)"
              "example_globals\<lparr>model := Some (\<lambda>rows. Inr [[1, 0]])\<rparr>"
              "Mono [0, 0]" 16000 "Exception ''IndexError: index out of bounds''"
              example_features
              "[(Str ''0_Kurtosis'', NaN), (Str ''0_Entropy'', NaN), (Str ''0_Mean'', Finite 0)]"
              "[[Finite 0, Finite 0, Finite 0]]" "[[1, 0]]" "[1, 0]"]
  by (simp add: example_eval)

subsection \<open>Shape of the result\<close>

lemma label_interpreter_labels:
  "label_interpreter v = Inr (kata, pembicara) \<Longrightarrow>
     (kata = ''Buka'' \<or> kata = ''Tutup'') \<and> (pembicara = ''Fikri'' \<or> pembicara = ''Fauzan'')"
  by (auto simp: label_interpreter_def split: sum.splits if_splits)

lemma pipeline_body_labels:
  "pipeline_body tsfel g sig sr = (evs, Inr (kata, pembicara)) \<Longrightarrow>
     \<exists>v. label_interpreter v = Inr (kata, pembicara)"
  by (auto simp: pipeline_body_def and_then_def split: sum.splits prod.splits)

text \<open>
  C10. For every signal and sample rate (and whatever the globals and the extractor
  are), \<^verbatim>\<open>run_prediction_pipeline\<close> returns either \<^verbatim>\<open>(None, None)\<close> or a pair whose first
  component is 'Buka' or 'Tutup' and whose second is 'Fikri' or 'Fauzan': never a pair
  with exactly one \<^verbatim>\<open>None\<close>.
\<close>

theorem run_prediction_pipeline_result_shape:
  "snd (run_prediction_pipeline tsfel g sig sr) = (None, None)
   \<or> (\<exists>kata pembicara.
         snd (run_prediction_pipeline tsfel g sig sr) = (Some kata, Some pembicara)
         \<and> (kata = ''Buka'' \<or> kata = ''Tutup'')
         \<and> (pembicara = ''Fikri'' \<or> pembicara = ''Fauzan''))"
proof (cases "pipeline_body tsfel g sig sr")
  case (Pair evs r)
  show ?thesis
  proof (cases r)
    case (Inl e)
    with Pair show ?thesis by (simp add: run_prediction_pipeline_def)
  next
    case (Inr kp)
    obtain kata pembicara where kp: "kp = (kata, pembicara)" by (cases kp)
    from Pair Inr kp pipeline_body_labels [of tsfel g sig sr evs kata pembicara]
    obtain v where "label_interpreter v = Inr (kata, pembicara)" by auto
    from label_interpreter_labels [OF this] Pair Inr kp
    show ?thesis by (simp add: run_prediction_pipeline_def)
  qed
qed

theorem run_prediction_pipeline_result_shape_witness:
  "snd (run_prediction_pipeline (tsfel_extractor (example_world NotInstalled)) example_globals
          (Mono [0, 0]) 16000) = (Some ''Buka'', Some ''Fauzan'')
   \<and> snd (run_prediction_pipeline (tsfel_extractor (example_world NotInstalled)) none_globals
          (Mono [0, 0]) 16000) = (None, None)"
  using run_prediction_pipeline_result_shape
          [of "tsfel_extractor (example_world NotInstalled)" example_globals "Mono [0, 0]" 16000]
        run_prediction_pipeline_result_shape
          [of "tsfel_extractor (example_world NotInstalled)" none_globals "Mono [0, 0]" 16000]
  by (simp add: pipeline_splits example_eval)

section \<open>Properties of the asset loader\<close>

lemma load_failed_stops: "\<exists>msg. load_failed e = ([StError msg], Stopped)"
  by (cases e) simp_all

lemma load_assets_read_fails:
  "model_suara_joblib disk = Inl e1 \<or> imputer_joblib disk = Inl e2
     \<or> selected_features_joblib disk = Inl e3 \<or> features_by_domain disk = Inl e4 \<Longrightarrow>
   \<exists>msg. load_assets disk = ([StError msg], Stopped)"
  using load_failed_stops
  by (auto simp: load_assets_def split: sum.splits)

text \<open>
  C7. If any of the four reads of \<^verbatim>\<open>load_assets\<close> finds its file missing
  (FileNotFoundError), the loader shows one error message and stops the script: it
  returns nothing, and the script does not go on to serve requests.
\<close>

theorem missing_artifact_stops_script:
  assumes "(\<exists>m. model_suara_joblib disk = Inl (FileNotFoundError m))
         \<or> (\<exists>m. imputer_joblib disk = Inl (FileNotFoundError m))
         \<or> (\<exists>m. selected_features_joblib disk = Inl (FileNotFoundError m))
         \<or> (\<exists>m. features_by_domain disk = Inl (FileNotFoundError m))"
  shows "(\<exists>msg. load_assets disk = ([StError msg], Stopped)) \<and> snd (app_start disk) = None"
proof -
  from assms obtain e1 e2 e3 e4 where
    "model_suara_joblib disk = Inl e1 \<or> imputer_joblib disk = Inl e2
     \<or> selected_features_joblib disk = Inl e3 \<or> features_by_domain disk = Inl e4"
    by blast
  from load_assets_read_fails [OF this] obtain msg
    where "load_assets disk = ([StError msg], Stopped)" by blast
  then show ?thesis by (simp add: app_start_def)
qed

theorem missing_artifact_stops_script_witness:
  "selected_features_joblib (example_disk (Inl (FileNotFoundError ''selected_features.joblib'')))
     = Inl (FileNotFoundError ''selected_features.joblib'')
   \<and> load_assets (example_disk (Inl (FileNotFoundError ''selected_features.joblib'')))
     = ([StError ''ERROR: File model tidak ditemukan. Pastikan file .joblib ada di folder yang sama.''],
        Stopped)
   \<and> snd (app_start (example_disk (Inl (FileNotFoundError ''selected_features.joblib'')))) = None"
  using missing_artifact_stops_script
          [of "example_disk (Inl (FileNotFoundError ''selected_features.joblib''))"]
  by (simp add: example_disk_def load_assets_def)

text \<open>
  C2 (what the code does). When all four reads succeed and the selected-feature-names
  object is not a list, \<^verbatim>\<open>load_assets\<close> shows an error message and returns
  \<^verbatim>\<open>None, None, None, None\<close>: the script is not stopped, it binds its four globals to
  \<^verbatim>\<open>None\<close> and goes on to serve requests. The two \<^verbatim>\<open>except\<close> clauses of the same function
  stop the script instead.
\<close>

theorem non_list_names_returns_all_none:
  assumes "model_suara_joblib disk = Inr m" and "imputer_joblib disk = Inr i"
    and "selected_features_joblib disk = Inr names" and "features_by_domain disk = Inr cfg"
    and "\<not> isinstance_list names"
  shows "load_assets disk =
           ([StError ''Error: 'selected_features.joblib' bukan sebuah list. Pastikan file sudah benar.''],
            Returned (None, None, PyNone, None))
       \<and> snd (app_start disk) =
           Some \<lparr>model = None, imputer = None, selected_features_names = PyNone, tsfel_cfg = None\<rparr>"
  using assms by (simp add: load_assets_def app_start_def)

theorem non_list_names_returns_all_none_witness:
  "\<not> isinstance_list PyNone
   \<and> load_assets (example_disk (Inr PyNone)) =
       ([StError ''Error: 'selected_features.joblib' bukan sebuah list. Pastikan file sudah benar.''],
        Returned (None, None, PyNone, None))
   \<and> snd (app_start (example_disk (Inr PyNone))) = Some none_globals"
  using non_list_names_returns_all_none
          [of "example_disk (Inr PyNone)" "\<lambda>rows. Inr [[1, 0, 0]]" "\<lambda>df. Inr [map snd df]" PyNone "()"]
  by (simp add: example_disk_def none_globals_def)

section \<open>Properties of the audio normalizer\<close>

lemma load_shape:
  "\<exists>xs. librosa_resample w (librosa_to_mono w True s) orig_sr target_sr = Mono xs"
  by (cases s) auto

lemma librosa_load_target:
  assumes "librosa_load w fs src (Some TARGET_SR) True = Inr (sig, sr)"
  shows "sr = 16000 \<and> (\<exists>xs. sig = Mono xs)"
proof (cases "open_source fs src")
  case (Inl e)
  with assms show ?thesis by (simp add: librosa_load_def)
next
  case (Inr b)
  show ?thesis
  proof (cases "decode w b")
    case (Inl e)
    with assms Inr show ?thesis by (simp add: librosa_load_def)
  next
    case decoded: (Inr a)
    with assms Inr
    have "sig = librosa_resample w (librosa_to_mono w True (samples a)) (native_sr a) TARGET_SR"
      and "sr = TARGET_SR"
      by (simp_all add: librosa_load_def Let_def)
    with load_shape [of w "samples a" "native_sr a" TARGET_SR] show ?thesis
      by (simp add: TARGET_SR_def)
  qed
qed

lemma librosa_load_valid:
  assumes "open_source fs src = Inr b" and "decode w b = Inr a"
  shows "\<exists>xs. librosa_load w fs src (Some TARGET_SR) True = Inr (Mono xs, 16000)"
proof -
  from load_shape [of w "samples a" "native_sr a" TARGET_SR] obtain xs
    where "librosa_resample w (librosa_to_mono w True (samples a)) (native_sr a) TARGET_SR = Mono xs"
    by blast
  with assms have "librosa_load w fs src (Some TARGET_SR) True = Inr (Mono xs, 16000)"
    by (simp add: librosa_load_def Let_def TARGET_SR_def)
  then show ?thesis by blast
qed

lemma pipeline_extract_event:
  "TsfelExtract sig' sr' \<in> set (fst (run_prediction_pipeline tsfel g sig sr)) \<Longrightarrow>
     sig' = sig \<and> sr' = sr"
  by (auto simp: pipeline_splits split: sum.splits prod.splits)

lemma pipeline_first_event:
  "\<exists>rest. fst (run_prediction_pipeline tsfel g sig sr) = TsfelExtract sig sr # rest"
  by (auto simp: pipeline_splits split: sum.splits prod.splits)

lemma upload_handlers_no_extract: "TsfelExtract sig sr \<notin> set (fst (upload_handlers e))"
  by (cases e rule: upload_handlers.cases) simp_all

lemma convert_extract_event:
  assumes conv: "convert_and_predict w g fs inp outp = (fs2, evs, outcome)"
    and ev: "TsfelExtract sig sr \<in> set evs"
  shows "sr = 16000 \<and> (\<exists>xs. sig = Mono xs)"
proof -
  from conv ev obtain fs1 sig0 sr0 labels
    where load: "librosa_load w fs1 (Path outp) (Some TARGET_SR) True = Inr (sig0, sr0)"
      and run: "run_prediction_pipeline (tsfel_extractor w) g sig0 sr0 = (evs, labels)"
    by (auto simp: convert_and_predict_def Let_def
             split: process_exit.splits if_splits sum.splits prod.splits)
  from run ev
  have "TsfelExtract sig sr \<in> set (fst (run_prediction_pipeline (tsfel_extractor w) g sig0 sr0))"
    by simp
  from pipeline_extract_event [OF this] librosa_load_target [OF load]
  show ?thesis by simp
qed

lemma process_extract_event:
  assumes ev: "TsfelExtract sig sr \<in> set (fst (snd (process_uploaded_file w g fs audio_file)))"
  shows "sr = 16000 \<and> (\<exists>xs. sig = Mono xs)"
proof -
  let ?inp = "temp_name w (splitext_ext w (upload_name audio_file))"
  obtain fs2 evs2 outcome2
    where conv: "convert_and_predict w g (fs(?inp \<mapsto> getvalue audio_file)) ?inp (?inp @ ''.wav'')
                   = (fs2, evs2, outcome2)"
    by (cases "convert_and_predict w g (fs(?inp \<mapsto> getvalue audio_file)) ?inp (?inp @ ''.wav'')") auto
  then have "fst (snd (process_uploaded_file w g fs audio_file)) =
      evs2 @ fst (case outcome2 of Inl e \<Rightarrow> upload_handlers e | Inr labels \<Rightarrow> ([], Inr labels))"
    by (simp add: process_uploaded_file_def Let_def)
  with ev upload_handlers_no_extract have "TsfelExtract sig sr \<in> set evs2"
    by (auto split: sum.splits)
  from convert_extract_event [OF conv this] show ?thesis .
qed

lemma recording_extract_event:
  assumes ev: "TsfelExtract sig sr \<in> set (fst (predict_recording w g fs wav_audio_bytes))"
  shows "sr = 16000 \<and> (\<exists>xs. sig = Mono xs)"
proof -
  from ev obtain sig0 sr0
    where load: "librosa_load w fs (BytesIO wav_audio_bytes) (Some TARGET_SR) True = Inr (sig0, sr0)"
      and ev': "TsfelExtract sig sr
                  \<in> set (fst (run_prediction_pipeline (tsfel_extractor w) g sig0 sr0))"
    by (auto simp: predict_recording_def split: sum.splits prod.splits)
  from pipeline_extract_event [OF ev'] librosa_load_target [OF load]
  show ?thesis by simp
qed

lemma recording_valid:
  assumes "decode w wav_audio_bytes = Inr a"
  shows "\<exists>xs rest. fst (predict_recording w g fs wav_audio_bytes)
                      = TsfelExtract (Mono xs) 16000 # rest"
proof -
  from librosa_load_valid [OF _ assms, of fs "BytesIO wav_audio_bytes"]
  obtain xs
    where load: "librosa_load w fs (BytesIO wav_audio_bytes) (Some TARGET_SR) True
                   = Inr (Mono xs, 16000)"
    by (auto simp: open_source_def)
  from pipeline_first_event [of "tsfel_extractor w" g "Mono xs" 16000]
  obtain rest
    where "fst (run_prediction_pipeline (tsfel_extractor w) g (Mono xs) 16000)
             = TsfelExtract (Mono xs) 16000 # rest"
    by blast
  with load show ?thesis
    by (auto simp: predict_recording_def split: prod.splits)
qed

lemma upload_valid:
  assumes inp: "inp = temp_name w (splitext_ext w (upload_name audio_file))"
    and ff: "subprocess_run w (fs(inp \<mapsto> getvalue audio_file)) (ffmpeg_command inp (inp @ ''.wav''))
               = Exited 0 err (Some wav)"
    and dec: "decode w wav = Inr a"
  shows "\<exists>xs rest. fst (snd (process_uploaded_file w g fs audio_file))
                      = TsfelExtract (Mono xs) 16000 # rest"
proof -
  let ?fs1 = "fs(inp \<mapsto> getvalue audio_file)"
  let ?fs2 = "?fs1(inp @ ''.wav'' \<mapsto> wav)"
  from librosa_load_valid [OF _ dec, of ?fs2 "Path (inp @ ''.wav'')"]
  obtain xs
    where load: "librosa_load w ?fs2 (Path (inp @ ''.wav'')) (Some TARGET_SR) True
                   = Inr (Mono xs, 16000)"
    by (auto simp: open_source_def)
  from pipeline_first_event [of "tsfel_extractor w" g "Mono xs" 16000]
  obtain rest
    where "fst (run_prediction_pipeline (tsfel_extractor w) g (Mono xs) 16000)
             = TsfelExtract (Mono xs) 16000 # rest"
    by blast
  with load ff inp show ?thesis
    by (auto simp: process_uploaded_file_def convert_and_predict_def Let_def split: prod.splits)
qed

lemmas upload_eval =
  example_world_def example_upload_def librosa_load_def open_source_def
  TARGET_SR_def predict_recording_def process_uploaded_file_def convert_and_predict_def
  ffmpeg_command_def Let_def remove_if_exists_def pipeline_message_def
  run_prediction_pipeline_def pipeline_body_def and_then_def
  example_globals_def example_names_def conform_def
  DAList.lookup.rep_eq example_features_impl replace_def call_method_def getitem_def
  label_interpreter_def

text \<open>
  C8. Both loads of the script ask librosa for the target rate and for mono. Whenever such
  a load returns, the rate it returns is 16000 and the signal is one-dimensional. For a
  valid WAV input (one the decoder accepts), recorded, or uploaded and transcoded by
  FFmpeg with exit code 0, the load does return, and the pipeline is called first of all
  with a mono signal at 16000 Hz. No request hands the extractor anything else.
\<close>

theorem normalized_signal_is_mono_at_target_rate:
  "(librosa_load w fs src (Some TARGET_SR) True = Inr (sig, sr) \<longrightarrow>
      sr = 16000 \<and> (\<exists>xs. sig = Mono xs))
   \<and> (decode w wav = Inr a \<longrightarrow>
        (\<exists>xs. librosa_load w fs (BytesIO wav) (Some TARGET_SR) True = Inr (Mono xs, 16000))
        \<and> (\<exists>xs rest. fst (predict_recording w g fs wav) = TsfelExtract (Mono xs) 16000 # rest))
   \<and> (inp = temp_name w (splitext_ext w (upload_name audio_file))
        \<and> subprocess_run w (fs(inp \<mapsto> getvalue audio_file)) (ffmpeg_command inp (inp @ ''.wav''))
            = Exited 0 err (Some wav)
        \<and> decode w wav = Inr a \<longrightarrow>
        (\<exists>xs rest. fst (snd (process_uploaded_file w g fs audio_file))
                      = TsfelExtract (Mono xs) 16000 # rest))
   \<and> (TsfelExtract sig' sr' \<in> set (fst (snd (process_uploaded_file w g fs audio_file))) \<longrightarrow>
        sr' = 16000 \<and> (\<exists>xs. sig' = Mono xs))
   \<and> (TsfelExtract sig' sr' \<in> set (fst (predict_recording w g fs wav)) \<longrightarrow>
        sr' = 16000 \<and> (\<exists>xs. sig' = Mono xs))"
proof -
  have "decode w wav = Inr a \<longrightarrow>
        (\<exists>xs. librosa_load w fs (BytesIO wav) (Some TARGET_SR) True = Inr (Mono xs, 16000))"
    using librosa_load_valid [of fs "BytesIO wav" wav w a] by (simp add: open_source_def)
  then show ?thesis
    using librosa_load_target [of w fs src sig sr]
      recording_valid [of w wav a g fs]
      upload_valid [of inp w audio_file fs err wav a g]
      process_extract_event [of sig' sr' w g fs audio_file]
      recording_extract_event [of sig' sr' w g fs wav]
    by blast
qed

theorem normalized_signal_is_mono_at_target_rate_witness:
  "decode (example_world (Exited 0 (Some []) (Some ''RIFF''))) ''RIFF''
     = Inr \<lparr>samples = Multi [[0, 0], [0, 0]], native_sr = 44100\<rparr>
   \<and> librosa_load (example_world (Exited 0 (Some []) (Some ''RIFF''))) Map.empty (BytesIO ''RIFF'')
        (Some TARGET_SR) True = Inr (Mono [0, 0], 16000)
   \<and> hd (fst (predict_recording (example_world (Exited 0 (Some []) (Some ''RIFF''))) example_globals
                 Map.empty ''RIFF'')) = TsfelExtract (Mono [0, 0]) 16000
   \<and> hd (fst (snd (process_uploaded_file (example_world (Exited 0 (Some []) (Some ''RIFF'')))
                      example_globals Map.empty example_upload))) = TsfelExtract (Mono [0, 0]) 16000"
  using normalized_signal_is_mono_at_target_rate
          [of "example_world (Exited 0 (Some []) (Some ''RIFF''))" Map.empty "BytesIO ''RIFF''"
              "Mono [0, 0]" 16000 "''RIFF''" "\<lparr>samples = Multi [[0, 0], [0, 0]], native_sr = 44100\<rparr>"
              example_globals "''/tmp/tmpk3x.mp3''" example_upload "Some []"]
  by (simp add: upload_eval)

section \<open>Temporary files of an upload\<close>

lemma convert_keeps_other_files:
  "convert_and_predict w g fs inp outp = (fs2, evs, outcome) \<Longrightarrow> p \<noteq> outp \<Longrightarrow> fs2 p = fs p"
  by (auto simp: convert_and_predict_def Let_def
           split: process_exit.splits option.splits if_splits sum.splits prod.splits)

lemma convert_not_installed:
  "subprocess_run w fs (ffmpeg_command inp outp) = NotInstalled \<Longrightarrow>
   convert_and_predict w g fs inp outp = (fs, [], Inl (FileNotFoundError ''ffmpeg''))"
  by (simp add: convert_and_predict_def)

lemma remove_if_exists_apply:
  "remove_if_exists fs p q = (if q = p then None else fs q)"
  by (auto simp: remove_if_exists_def)

text \<open>
  C5. For every upload, however FFmpeg ends (not installed, a non-zero exit, exit 0) and
  whatever the load and the pipeline do afterwards, when \<^verbatim>\<open>process_uploaded_file\<close> is left
  neither of its two temporary files exists and every other file is as it was. When
  FFmpeg is not installed the request shows the message that says so (not the generic
  one) and returns \<^verbatim>\<open>None, None\<close>: no exception leaves the function.
\<close>

theorem process_uploaded_file_removes_temp_files:
  assumes run: "process_uploaded_file w g fs audio_file = (fs', evs, outcome)"
    and inp: "input_temp_path = temp_name w (splitext_ext w (upload_name audio_file))"
    and outp: "output_temp_path = input_temp_path @ ''.wav''"
  shows "fs' input_temp_path = None \<and> fs' output_temp_path = None
     \<and> (\<forall>p. p \<noteq> input_temp_path \<and> p \<noteq> output_temp_path \<longrightarrow> fs' p = fs p)
     \<and> (subprocess_run w (fs(input_temp_path \<mapsto> getvalue audio_file))
           (ffmpeg_command input_temp_path output_temp_path) = NotInstalled \<longrightarrow>
          evs = [StError ''ERROR: FFmpeg tidak ditemukan. Pastikan FFmpeg sudah terinstal.'']
          \<and> outcome = Inr (None, None))"
proof -
  let ?fs1 = "fs(input_temp_path \<mapsto> getvalue audio_file)"
  obtain fs2 evs2 outcome2
    where conv: "convert_and_predict w g ?fs1 input_temp_path output_temp_path = (fs2, evs2, outcome2)"
    by (cases "convert_and_predict w g ?fs1 input_temp_path output_temp_path") auto
  let ?handled = "case outcome2 of Inl e \<Rightarrow> upload_handlers e | Inr labels \<Rightarrow> ([], Inr labels)"
  from run conv inp outp
  have fs': "fs' = remove_if_exists (remove_if_exists fs2 input_temp_path) output_temp_path"
    and evs: "evs = evs2 @ fst ?handled" and outcome: "outcome = snd ?handled"
    by (simp_all add: process_uploaded_file_def Let_def)
  have gone: "fs' input_temp_path = None \<and> fs' output_temp_path = None"
    by (simp add: fs' remove_if_exists_apply)
  have kept: "\<forall>p. p \<noteq> input_temp_path \<and> p \<noteq> output_temp_path \<longrightarrow> fs' p = fs p"
  proof (intro allI impI)
    fix p assume p: "p \<noteq> input_temp_path \<and> p \<noteq> output_temp_path"
    then have "fs' p = fs2 p" by (simp add: fs' remove_if_exists_apply)
    also from convert_keeps_other_files [OF conv] p have "fs2 p = ?fs1 p" by simp
    also from p have "?fs1 p = fs p" by simp
    finally show "fs' p = fs p" .
  qed
  have missing:
    "subprocess_run w ?fs1 (ffmpeg_command input_temp_path output_temp_path) = NotInstalled \<longrightarrow>
       evs = [StError ''ERROR: FFmpeg tidak ditemukan. Pastikan FFmpeg sudah terinstal.'']
       \<and> outcome = Inr (None, None)"
  proof
    assume "subprocess_run w ?fs1 (ffmpeg_command input_temp_path output_temp_path) = NotInstalled"
    from convert_not_installed [OF this, of g] conv
    have "evs2 = []" and "outcome2 = Inl (FileNotFoundError ''ffmpeg'')" by simp_all
    then show "evs = [StError ''ERROR: FFmpeg tidak ditemukan. Pastikan FFmpeg sudah terinstal.'']
          \<and> outcome = Inr (None, None)"
      by (simp add: evs outcome)
  qed
  from gone kept missing show ?thesis by blast
qed

text \<open>
  The theorem on four requests with the same upload: FFmpeg not installed, FFmpeg exiting
  with code 1 after writing part of its output, FFmpeg exiting with code 0 on a file the
  decoder rejects, and a conversion that succeeds. Each leaves no temporary file.
\<close>

theorem process_uploaded_file_removes_temp_files_witness:
  "fst (process_uploaded_file (example_world NotInstalled) example_globals
          [''/app/imputer.joblib'' \<mapsto> ''i''] example_upload) ''/tmp/tmpk3x.mp3'' = None
   \<and> fst (process_uploaded_file (example_world NotInstalled) example_globals
          [''/app/imputer.joblib'' \<mapsto> ''i''] example_upload) ''/tmp/tmpk3x.mp3.wav'' = None
   \<and> fst (process_uploaded_file (example_world NotInstalled) example_globals
          [''/app/imputer.joblib'' \<mapsto> ''i''] example_upload) ''/app/imputer.joblib'' = Some ''i''
   \<and> snd (process_uploaded_file (example_world NotInstalled) example_globals
          [''/app/imputer.joblib'' \<mapsto> ''i''] example_upload)
       = ([StError ''ERROR: FFmpeg tidak ditemukan. Pastikan FFmpeg sudah terinstal.''],
          Inr (None, None))
   \<and> fst (process_uploaded_file (example_world (Exited 1 (Some ''Invalid data'') (Some ''RI'')))
          example_globals Map.empty example_upload) ''/tmp/tmpk3x.mp3.wav'' = None
   \<and> snd (process_uploaded_file (example_world (Exited 1 (Some ''Invalid data'') (Some ''RI'')))
          example_globals Map.empty example_upload)
       = ([StError ''Error saat konversi FFmpeg: Invalid data''], Inr (None, None))
   \<and> fst (process_uploaded_file (example_world (Exited 0 (Some []) (Some ''junk'')))
          example_globals Map.empty example_upload) ''/tmp/tmpk3x.mp3.wav'' = None
   \<and> snd (process_uploaded_file (example_world (Exited 0 (Some []) (Some ''junk'')))
          example_globals Map.empty example_upload)
       = ([StError ''Terjadi error saat memproses file upload: NoBackendError''], Inr (None, None))
   \<and> fst (process_uploaded_file (example_world (Exited 0 (Some []) (Some ''RIFF'')))
          example_globals Map.empty example_upload) ''/tmp/tmpk3x.mp3.wav'' = None
   \<and> snd (snd (process_uploaded_file (example_world (Exited 0 (Some []) (Some ''RIFF'')))
          example_globals Map.empty example_upload))
       = Inr (Some ''Buka'', Some ''Fauzan'')"
proof -
  let ?missing = "process_uploaded_file (example_world NotInstalled) example_globals
          [''/app/imputer.joblib'' \<mapsto> ''i''] example_upload"
  let ?failed = "process_uploaded_file (example_world (Exited 1 (Some ''Invalid data'') (Some ''RI'')))
          example_globals Map.empty example_upload"
  let ?junk = "process_uploaded_file (example_world (Exited 0 (Some []) (Some ''junk'')))
          example_globals Map.empty example_upload"
  let ?good = "process_uploaded_file (example_world (Exited 0 (Some []) (Some ''RIFF'')))
          example_globals Map.empty example_upload"
  have paths: "''/tmp/tmpk3x.mp3'' = temp_name (example_world ex)
                  (splitext_ext (example_world ex) (upload_name example_upload))" for ex
    by (simp add: example_world_def)
  have absent: "subprocess_run (example_world NotInstalled) fs1 command = NotInstalled" for fs1 command
    by (simp add: example_world_def)
  from process_uploaded_file_removes_temp_files
         [of "example_world NotInstalled" example_globals "[''/app/imputer.joblib'' \<mapsto> ''i'']"
             example_upload "fst ?missing" "fst (snd ?missing)" "snd (snd ?missing)"
             "''/tmp/tmpk3x.mp3''" "''/tmp/tmpk3x.mp3.wav''", OF _ paths] absent
  have m: "fst ?missing ''/tmp/tmpk3x.mp3'' = None \<and> fst ?missing ''/tmp/tmpk3x.mp3.wav'' = None
     \<and> fst ?missing ''/app/imputer.joblib'' = Some ''i''
     \<and> snd ?missing = ([StError ''ERROR: FFmpeg tidak ditemukan. Pastikan FFmpeg sudah terinstal.''],
          Inr (None, None))"
    by (simp add: prod_eq_iff)
  from process_uploaded_file_removes_temp_files
         [of "example_world (Exited 1 (Some ''Invalid data'') (Some ''RI''))" example_globals Map.empty
             example_upload "fst ?failed" "fst (snd ?failed)" "snd (snd ?failed)"
             "''/tmp/tmpk3x.mp3''" "''/tmp/tmpk3x.mp3.wav''", OF _ paths]
  have f: "fst ?failed ''/tmp/tmpk3x.mp3.wav'' = None" by simp
  from process_uploaded_file_removes_temp_files
         [of "example_world (Exited 0 (Some []) (Some ''junk''))" example_globals Map.empty
             example_upload "fst ?junk" "fst (snd ?junk)" "snd (snd ?junk)"
             "''/tmp/tmpk3x.mp3''" "''/tmp/tmpk3x.mp3.wav''", OF _ paths]
  have j: "fst ?junk ''/tmp/tmpk3x.mp3.wav'' = None" by simp
  from process_uploaded_file_removes_temp_files
         [of "example_world (Exited 0 (Some []) (Some ''RIFF''))" example_globals Map.empty
             example_upload "fst ?good" "fst (snd ?good)" "snd (snd ?good)"
             "''/tmp/tmpk3x.mp3''" "''/tmp/tmpk3x.mp3.wav''", OF _ paths]
  have g: "fst ?good ''/tmp/tmpk3x.mp3.wav'' = None" by simp
  have f': "snd ?failed = ([StError ''Error saat konversi FFmpeg: Invalid data''], Inr (None, None))"
    by (simp add: upload_eval)
  have j': "snd ?junk
       = ([StError ''Terjadi error saat memproses file upload: NoBackendError''], Inr (None, None))"
    by (simp add: upload_eval)
  have g': "snd (snd ?good) = Inr (Some ''Buka'', Some ''Fauzan'')"
    by (simp add: upload_eval)
  from m f j g f' j' g' show ?thesis by simp
qed

end
